theory Spec2Isabelle
  imports Main "HOL-Library.Word" "HOL-Library.Signed_Division"
begin

section \<open>The format service: data model\<close>

text \<open>
  The service of \<^verbatim>\<open>src/main.go\<close>: one endpoint \<^verbatim>\<open>POST /format\<close> behind a
  metrics middleware, and \<^verbatim>\<open>GET /metrics\<close>. Go's \<^verbatim>\<open>int64\<close> is a 64-bit word read
  as two's complement (\<open>sint\<close>, \<open><s\<close>); \<^verbatim>\<open>time.Duration\<close> is an \<^verbatim>\<open>int64\<close> count of
  nanoseconds; \<^verbatim>\<open>[]byte\<close> and \<^verbatim>\<open>string\<close> are byte lists. Log lines are not part
  of the model: no result depends on them.
\<close>

type_synonym int64 = "64 word"
type_synonym Duration = "64 word"
type_synonym bytes = string

text \<open>
  \<^verbatim>\<open>FormatAPIMetrics\<close> (main.go, lines 21-27). The mutex \<^verbatim>\<open>mu\<close> has no field here:
  every block of the source between \<^verbatim>\<open>mu.Lock()\<close> and \<^verbatim>\<open>mu.Unlock()\<close> is one atomic
  function on this record.
\<close>

record FormatAPIMetrics =
  RequestCount :: int64
  ErrorCount :: int64
  TotalDuration :: Duration
  MaxPayloadSize :: int64

text \<open>\<^verbatim>\<open>var formatMetrics = &FormatAPIMetrics{}\<close>: every field starts at zero.\<close>

definition formatMetrics :: FormatAPIMetrics where
  "formatMetrics =
     \<lparr>RequestCount = 0, ErrorCount = 0, TotalDuration = 0, MaxPayloadSize = 0\<rparr>"

text \<open>
  What the service reads of a request: the value of the \<^verbatim>\<open>type\<close> query parameter
  (\<open>None\<close> when the parameter is absent) and the outcome of reading the body stream to
  its end with \<^verbatim>\<open>ioutil.ReadAll\<close>: the bytes, or the read error (\<open>Inl\<close>).
\<close>

record Request =
  query_type :: "string option"
  Body :: "string + bytes"

text \<open>\<^verbatim>\<open>r.URL.Query().Get("type")\<close>: the empty string when the key is absent.\<close>

definition Query_Get :: "Request \<Rightarrow> string" where
  "Query_Get r = (case query_type r of None \<Rightarrow> [] | Some v \<Rightarrow> v)"

text \<open>
  \<^verbatim>\<open>strings.ToLower\<close> on the bytes of an ASCII string: the letters \<^verbatim>\<open>A\<close> to \<^verbatim>\<open>Z\<close>
  move to \<^verbatim>\<open>a\<close> to \<^verbatim>\<open>z\<close>, every other byte stays. Go lowercases a value with bytes
  outside ASCII rune by rune; the handler only compares the result with the empty
  string and with \<^verbatim>\<open>json\<close>, \<^verbatim>\<open>xml\<close> and \<^verbatim>\<open>html\<close>, and no rune outside ASCII has one
  of their letters as its lowercase, so such a value is an invalid type there as here.
\<close>

definition lower_byte :: "char \<Rightarrow> char" where
  "lower_byte c =
     (if 65 \<le> (of_char c :: nat) \<and> (of_char c :: nat) \<le> 90
      then char_of ((of_char c :: nat) + 32) else c)"

definition ToLower :: "string \<Rightarrow> string" where
  "ToLower s = map lower_byte s"

record Response =
  status :: nat
  content_type :: string
  payload :: bytes

definition StatusOK :: nat where "StatusOK = 200"
definition StatusBadRequest :: nat where "StatusBadRequest = 400"
definition StatusInternalServerError :: nat where "StatusInternalServerError = 500"

text \<open>
  \<^verbatim>\<open>http.Error(w, msg, code)\<close>: a plain-text response with the status \<open>code\<close> and
  the message followed by a newline.
\<close>

definition http_Error :: "string \<Rightarrow> nat \<Rightarrow> Response" where
  "http_Error msg code =
     \<lparr>status = code, content_type = ''text/plain; charset=utf-8'',
      payload = msg @ [CHR 0x0A]\<rparr>"

section \<open>The formatters\<close>

text \<open>
  The formatters call Go's \<^verbatim>\<open>encoding/json\<close>, \<^verbatim>\<open>encoding/xml\<close> and
  \<^verbatim>\<open>golang.org/x/net/html\<close>. These packages are not part of the repository; the model
  takes them as a parameter: one function per call the source makes, returning the
  error message (\<open>Inl\<close>) or the result. \<open>'j\<close>, \<open>'x\<close> and \<open>'h\<close> are the values the
  decoders store in the \<^verbatim>\<open>interface{}\<close> target and the parsed HTML tree.
\<close>

record ('j, 'x, 'h) stdlib =
  json_Unmarshal :: "bytes \<Rightarrow> string + 'j"
  json_MarshalIndent :: "'j \<Rightarrow> string \<Rightarrow> string \<Rightarrow> string + bytes"
  xml_Unmarshal :: "bytes \<Rightarrow> string + 'x"
  xml_MarshalIndent :: "'x \<Rightarrow> string \<Rightarrow> string \<Rightarrow> string + bytes"
  html_Parse :: "bytes \<Rightarrow> string + 'h"
  html_Render :: "'h \<Rightarrow> string + bytes"

text \<open>\<^verbatim>\<open>formatJSON\<close> (main.go, lines 80-92).\<close>

definition formatJSON :: "('j, 'x, 'h) stdlib \<Rightarrow> bytes \<Rightarrow> string + bytes" where
  "formatJSON lib data =
     (case json_Unmarshal lib data of
        Inl err \<Rightarrow> Inl (''failed to parse JSON: '' @ err)
      | Inr parsedJSON \<Rightarrow>
          (case json_MarshalIndent lib parsedJSON [] ''  '' of
             Inl err \<Rightarrow> Inl (''failed to format JSON: '' @ err)
           | Inr formattedJSON \<Rightarrow> Inr formattedJSON))"

text \<open>\<^verbatim>\<open>formatXML\<close> (main.go, lines 95-107): the only formatter that appends a byte.\<close>

definition formatXML :: "('j, 'x, 'h) stdlib \<Rightarrow> bytes \<Rightarrow> string + bytes" where
  "formatXML lib data =
     (case xml_Unmarshal lib data of
        Inl err \<Rightarrow> Inl (''failed to parse XML: '' @ err)
      | Inr parsedXML \<Rightarrow>
          (case xml_MarshalIndent lib parsedXML [] ''  '' of
             Inl err \<Rightarrow> Inl (''failed to format XML: '' @ err)
           | Inr formattedXML \<Rightarrow> Inr (formattedXML @ [CHR 0x0A])))"

text \<open>\<^verbatim>\<open>formatHTML\<close> (main.go, lines 110-122).\<close>

definition formatHTML :: "('j, 'x, 'h) stdlib \<Rightarrow> bytes \<Rightarrow> string + bytes" where
  "formatHTML lib data =
     (case html_Parse lib data of
        Inl err \<Rightarrow> Inl (''failed to parse HTML: '' @ err)
      | Inr doc \<Rightarrow>
          (case html_Render lib doc of
             Inl err \<Rightarrow> Inl (''failed to render HTML: '' @ err)
           | Inr buf \<Rightarrow> Inr buf))"

section \<open>The metrics accumulator\<close>

text \<open>
  The handler's critical section (main.go, lines 131-133, 143-145, 164-166, 173-175):
  \<^verbatim>\<open>formatMetrics.ErrorCount++\<close>.
\<close>

definition recordError :: "FormatAPIMetrics \<Rightarrow> FormatAPIMetrics" where
  "recordError m = m\<lparr>ErrorCount := ErrorCount m + 1\<rparr>"

text \<open>
  The middleware's critical section (main.go, lines 69-75): one more request, its
  duration added, the largest payload kept. The comparison is the signed one of
  \<^verbatim>\<open>int64\<close>.
\<close>

definition recordRequest :: "Duration \<Rightarrow> int64 \<Rightarrow> FormatAPIMetrics \<Rightarrow> FormatAPIMetrics" where
  "recordRequest duration payloadSize m =
     m\<lparr>RequestCount := RequestCount m + 1,
       TotalDuration := TotalDuration m + duration,
       MaxPayloadSize :=
         (if MaxPayloadSize m <s payloadSize then payloadSize else MaxPayloadSize m)\<rparr>"

section \<open>The handler and the middleware\<close>

type_synonym handler = "Request \<Rightarrow> FormatAPIMetrics \<Rightarrow> Response \<times> FormatAPIMetrics"

text \<open>
  The end of \<^verbatim>\<open>formatHandler\<close> (main.go, lines 170-185): a formatter's error is a 500
  and one more error; its output is the body of a 200.
\<close>

definition respond :: "string + bytes \<Rightarrow> FormatAPIMetrics \<Rightarrow> Response \<times> FormatAPIMetrics" where
  "respond res m =
     (case res of
        Inl err \<Rightarrow>
          (http_Error (''Formatting failed: '' @ err) StatusInternalServerError,
           recordError m)
      | Inr formattedData \<Rightarrow>
          (\<lparr>status = StatusOK, content_type = ''text/plain; charset=utf-8'',
            payload = formattedData\<rparr>, m))"

text \<open>\<^verbatim>\<open>formatHandler\<close> (main.go, lines 125-186), in the order of the source.\<close>

definition formatHandler :: "('j, 'x, 'h) stdlib \<Rightarrow> handler" where
  "formatHandler lib r m =
     (let contentType = ToLower (Query_Get r) in
      if contentType = [] then
        (http_Error ''Missing 'type' parameter. Specify 'json', 'xml', or 'html'.''
           StatusBadRequest, recordError m)
      else
        (case Body r of
           Inl err \<Rightarrow>
             (http_Error ''Failed to read request body'' StatusBadRequest, recordError m)
         | Inr body \<Rightarrow>
             if contentType = ''json'' then respond (formatJSON lib body) m
             else if contentType = ''xml'' then respond (formatXML lib body) m
             else if contentType = ''html'' then respond (formatHTML lib body) m
             else
               (http_Error
                  ''Invalid 'type' parameter. Supported types are 'json', 'xml', and 'html'.''
                  StatusBadRequest, recordError m)))"

text \<open>
  \<^verbatim>\<open>FormatMetricsMiddleware\<close> (main.go, lines 49-77). \<open>duration\<close> is what
  \<^verbatim>\<open>time.Since(start)\<close> returns after the wrapped handler: the clock is an input. When
  the body cannot be read the middleware answers and returns (lines 55-58); otherwise
  the wrapped handler gets a request whose body is the buffer just read, and the metrics
  are updated after it.
\<close>

definition FormatMetricsMiddleware :: "handler \<Rightarrow> Duration \<Rightarrow> handler" where
  "FormatMetricsMiddleware next duration r m =
     (case Body r of
        Inl err \<Rightarrow> (http_Error ''Failed to read request body'' StatusBadRequest, m)
      | Inr body \<Rightarrow>
          (let payloadSize = (of_nat (length body) :: int64);
               (w, m') = next (r\<lparr>Body := Inr body\<rparr>) m
           in (w, recordRequest duration payloadSize m')))"

text \<open>
  The route \<^verbatim>\<open>POST /format\<close> (main.go, line 223): the middleware around
  \<^verbatim>\<open>formatHandler\<close>.
\<close>

definition format_route :: "('j, 'x, 'h) stdlib \<Rightarrow> Duration \<Rightarrow> handler" where
  "format_route lib duration = FormatMetricsMiddleware (formatHandler lib) duration"

text \<open>
  Calls served one after the other, each with the duration its middleware measured;
  the metrics are threaded through, the responses are collected in order.
\<close>

fun serve_all ::
  "('j, 'x, 'h) stdlib \<Rightarrow> (Duration \<times> Request) list \<Rightarrow> FormatAPIMetrics
     \<Rightarrow> Response list \<times> FormatAPIMetrics" where
  "serve_all lib [] m = ([], m)"
| "serve_all lib (c # cs) m =
     (let (w, m') = format_route lib (fst c) (snd c) m;
          (ws, m'') = serve_all lib cs m'
      in (w # ws, m''))"

text \<open>The sizes of the bodies that were read, in the order of the calls.\<close>

fun body_sizes :: "(Duration \<times> Request) list \<Rightarrow> nat list" where
  "body_sizes [] = []"
| "body_sizes (c # cs) =
     (case Body (snd c) of
        Inl err \<Rightarrow> body_sizes cs
      | Inr body \<Rightarrow> length body # body_sizes cs)"

section \<open>The metrics endpoint\<close>

text \<open>
  Go's \<^verbatim>\<open>/\<close> on \<^verbatim>\<open>int64\<close>: a run-time panic when the divisor is zero (\<open>None\<close>),
  otherwise the quotient truncated towards zero, wrapped to 64 bits.
\<close>

definition div_int64 :: "int64 \<Rightarrow> int64 \<Rightarrow> int64 option" where
  "div_int64 a b = (if b = 0 then None else Some (word_of_int (sint a sdiv sint b)))"

text \<open>\<^verbatim>\<open>Duration.Milliseconds\<close>: the nanosecond count divided by \<open>10\<^sup>6\<close>.\<close>

definition Milliseconds :: "Duration \<Rightarrow> int64" where
  "Milliseconds d = word_of_int (sint d sdiv 1000000)"

text \<open>The \<^verbatim>\<open>averageDuration\<close> of \<^verbatim>\<open>MetricsHandler\<close> (main.go, lines 193-196).\<close>

definition averageDuration :: "FormatAPIMetrics \<Rightarrow> Duration option" where
  "averageDuration m =
     (if 0 <s RequestCount m then div_int64 (TotalDuration m) (RequestCount m)
      else Some 0)"

text \<open>The map that \<^verbatim>\<open>MetricsHandler\<close> encodes (main.go, lines 200-206).\<close>

record Snapshot =
  request_count :: int64
  error_count :: int64
  total_duration_ms :: int64
  average_duration_ms :: int64
  max_payload_size_bytes :: int64

text \<open>
  \<^verbatim>\<open>MetricsHandler\<close> (main.go, lines 189-207): the status, the content type and the
  encoded map; \<open>None\<close> if the division panics.
\<close>

definition MetricsHandler :: "FormatAPIMetrics \<Rightarrow> (nat \<times> string \<times> Snapshot) option" where
  "MetricsHandler m =
     (case averageDuration m of
        None \<Rightarrow> None
      | Some avg \<Rightarrow>
          Some (StatusOK, ''application/json'',
            \<lparr>request_count = RequestCount m,
             error_count = ErrorCount m,
             total_duration_ms = Milliseconds (TotalDuration m),
             average_duration_ms = Milliseconds avg,
             max_payload_size_bytes = MaxPayloadSize m\<rparr>))"

section \<open>Requests in flight\<close>

text \<open>
  Requests are served concurrently; the only shared object is the metrics record, and
  each request touches it in at most two critical sections: the handler's
  \<^verbatim>\<open>ErrorCount++\<close> (inside \<^verbatim>\<open>next.ServeHTTP\<close>, main.go line 64) and, after the
  handler has returned, the middleware's update (lines 69-75). A state of the system is
  the metrics record, the payload sizes of the requests whose handler has returned and
  whose middleware update is still to come, and the number of requests completed.
  \<open>step\<close> is one critical section of one request, or the middleware's early return;
  any interleaving of the requests is a path of \<open>step\<close>. \<^verbatim>\<open>GET /metrics\<close> reads the
  record under the same lock and changes nothing: it can be served in every state.
\<close>

type_synonym system = "FormatAPIMetrics \<times> int64 list \<times> nat"

inductive step :: "('j, 'x, 'h) stdlib \<Rightarrow> system \<Rightarrow> system \<Rightarrow> bool"
  for lib :: "('j, 'x, 'h) stdlib" where
  unreadable:
    "Body (r :: Request) = Inl err \<Longrightarrow> step lib (m, pending, n) (m, pending, Suc n)"
| handled:
    "Body (r :: Request) = Inr body \<Longrightarrow>
     step lib (m, pending, n)
       (snd (formatHandler lib (r\<lparr>Body := Inr body\<rparr>) m),
        of_nat (length body) # pending, n)"
| updated:
    "step lib (m, xs @ payloadSize # ys, n)
       (recordRequest duration payloadSize m, xs @ ys, Suc n)"

definition reachable :: "('j, 'x, 'h) stdlib \<Rightarrow> system \<Rightarrow> bool" where
  "reachable lib s = (step lib)\<^sup>*\<^sup>* (formatMetrics, [], 0) s"

section \<open>Start-up\<close>

text \<open>The process environment, and \<^verbatim>\<open>os.Getenv\<close>: the empty string when unset.\<close>

type_synonym environ = "string \<rightharpoonup> string"

definition Getenv :: "environ \<Rightarrow> string \<Rightarrow> string" where
  "Getenv env k = (case env k of None \<Rightarrow> [] | Some v \<Rightarrow> v)"

text \<open>
  The port of \<^verbatim>\<open>main\<close> (main.go, lines 211-214) and the address it passes to
  \<^verbatim>\<open>http.ListenAndServe\<close> (line 230).
\<close>

definition main_port :: "environ \<Rightarrow> string" where
  "main_port env = (let port = Getenv env ''PORT'' in if port = [] then ''8030'' else port)"

definition main_addr :: "environ \<Rightarrow> string" where
  "main_addr env = '':'' @ main_port env"

section \<open>A library instance for concrete runs\<close>

text \<open>
  The theorems below hold for every library. To run them on concrete inputs, this
  instance decodes a non-empty input to itself and encodes a value as itself; the empty
  input is a syntax error.
\<close>

definition decode_nonempty :: "string \<Rightarrow> bytes \<Rightarrow> string + bytes" where
  "decode_nonempty msg data = (if data = [] then Inl msg else Inr data)"

definition sample_lib :: "(bytes, bytes, bytes) stdlib" where
  "sample_lib =
     \<lparr>json_Unmarshal = decode_nonempty ''unexpected end of JSON input'',
      json_MarshalIndent = (\<lambda>v prefix indent. Inr v),
      xml_Unmarshal = decode_nonempty ''EOF'',
      xml_MarshalIndent = (\<lambda>v prefix indent. Inr v),
      html_Parse = (\<lambda>data. Inr data),
      html_Render = (\<lambda>doc. Inr doc)\<rparr>"

section \<open>Facts about words\<close>

lemma sint_of_nat_int64:
  assumes "n < 2 ^ 63"
  shows "sint (of_nat n :: int64) = int n"
proof -
  have "sint (of_nat n :: int64) = sint (word_of_int (int n) :: int64)"
    by simp
  also have "\<dots> = signed_take_bit 63 (int n)"
    unfolding sint_sbintrunc' by simp
  also have "\<dots> = int n"
    using assms by (simp add: signed_take_bit_int_eq_self_iff)
  finally show ?thesis by simp
qed

section \<open>What one request does to the metrics\<close>

lemma formatHandler_metrics:
  "snd (formatHandler lib r m) = m \<or> snd (formatHandler lib r m) = recordError m"
  by (simp add: formatHandler_def respond_def Let_def split: sum.splits)

lemma formatHandler_counts:
  "snd (formatHandler lib r m) =
     (if status (fst (formatHandler lib r m)) = StatusOK then m else recordError m)"
  by (simp add: formatHandler_def respond_def Let_def http_Error_def StatusOK_def
      StatusBadRequest_def StatusInternalServerError_def split: sum.splits)

lemma formatHandler_frame:
  "RequestCount (snd (formatHandler lib r m)) = RequestCount m
   \<and> TotalDuration (snd (formatHandler lib r m)) = TotalDuration m
   \<and> MaxPayloadSize (snd (formatHandler lib r m)) = MaxPayloadSize m"
  using formatHandler_metrics [of lib r m] by (auto simp: recordError_def)

lemma format_route_unreadable:
  "Body r = Inl err \<Longrightarrow>
   format_route lib d r m = (http_Error ''Failed to read request body'' StatusBadRequest, m)"
  by (simp add: format_route_def FormatMetricsMiddleware_def)

lemma format_route_readable:
  "Body r = Inr body \<Longrightarrow>
   format_route lib d r m =
     (fst (formatHandler lib (r\<lparr>Body := Inr body\<rparr>) m),
      recordRequest d (of_nat (length body)) (snd (formatHandler lib (r\<lparr>Body := Inr body\<rparr>) m)))"
  by (simp add: format_route_def FormatMetricsMiddleware_def split: prod.splits)

lemma RequestCount_format_route:
  "RequestCount (snd (format_route lib d r m)) =
     (case Body r of Inl err \<Rightarrow> RequestCount m | Inr body \<Rightarrow> RequestCount m + 1)"
  by (cases "Body r")
     (simp_all add: format_route_unreadable format_route_readable recordRequest_def
        formatHandler_frame)

lemma snd_serve_all_Cons:
  "snd (serve_all lib (c # cs) m) =
     snd (serve_all lib cs (snd (format_route lib (fst c) (snd c) m)))"
  by (simp add: case_prod_beta)

lemma fst_serve_all_Cons:
  "fst (serve_all lib (c # cs) m) =
     fst (format_route lib (fst c) (snd c) m)
       # fst (serve_all lib cs (snd (format_route lib (fst c) (snd c) m)))"
  by (simp add: case_prod_beta)

lemma RequestCount_serve_all:
  "RequestCount (snd (serve_all lib cs m)) = RequestCount m + of_nat (length (body_sizes cs))"
proof (induction cs arbitrary: m)
  case Nil
  show ?case by simp
next
  case (Cons c cs)
  show ?case
    using Cons.IH [of "snd (format_route lib (fst c) (snd c) m)"]
      RequestCount_format_route [of lib "fst c" "snd c" m]
    by (cases "Body (snd c)") (simp_all add: snd_serve_all_Cons del: serve_all.simps)
qed

lemma length_serve_all: "length (fst (serve_all lib cs m)) = length cs"
  by (induction cs arbitrary: m) (simp_all add: fst_serve_all_Cons del: serve_all.simps(2))

lemma recordRequest_max:
  "sint (MaxPayloadSize (recordRequest d p m)) = max (sint (MaxPayloadSize m)) (sint p)"
  by (simp add: recordRequest_def word_sless_alt max_def)

lemma MaxPayloadSize_format_route:
  "sint (MaxPayloadSize (snd (format_route lib d r m))) =
     (case Body r of Inl err \<Rightarrow> sint (MaxPayloadSize m)
      | Inr body \<Rightarrow> max (sint (MaxPayloadSize m)) (sint (of_nat (length body) :: int64)))"
  by (cases "Body r")
     (simp_all add: format_route_unreadable format_route_readable recordRequest_max
        formatHandler_frame)

lemma MaxPayloadSize_serve_all:
  assumes "\<forall>n \<in> set (body_sizes cs). n < 2 ^ 63"
  shows "sint (MaxPayloadSize (snd (serve_all lib cs m))) =
           Max (insert (sint (MaxPayloadSize m)) (int ` set (body_sizes cs)))"
  using assms
proof (induction cs arbitrary: m)
  case Nil
  show ?case by simp
next
  case (Cons c cs)
  let ?m' = "snd (format_route lib (fst c) (snd c) m)"
  show ?case
  proof (cases "Body (snd c)")
    case (Inl err)
    with Cons.prems have "\<forall>n \<in> set (body_sizes cs). n < 2 ^ 63" by simp
    from Cons.IH [OF this, of ?m'] Inl show ?thesis
      using MaxPayloadSize_format_route [of lib "fst c" "snd c" m]
      by (simp add: snd_serve_all_Cons del: serve_all.simps)
  next
    case (Inr body)
    with Cons.prems have small: "length body < 2 ^ 63"
      and rest: "\<forall>n \<in> set (body_sizes cs). n < 2 ^ 63" by simp_all
    have m': "sint (MaxPayloadSize ?m') = max (sint (MaxPayloadSize m)) (int (length body))"
      using MaxPayloadSize_format_route [of lib "fst c" "snd c" m] Inr
        sint_of_nat_int64 [OF small] by simp
    have "sint (MaxPayloadSize (snd (serve_all lib (c # cs) m))) =
            Max (insert (sint (MaxPayloadSize ?m')) (int ` set (body_sizes cs)))"
      using Cons.IH [OF rest, of ?m'] by (simp add: snd_serve_all_Cons del: serve_all.simps)
    also have "\<dots> = Max (insert (sint (MaxPayloadSize m))
                        (insert (int (length body)) (int ` set (body_sizes cs))))"
      unfolding m'
      by (cases "set (body_sizes cs) = {}") (simp_all add: max.assoc)
    finally show ?thesis using Inr by simp
  qed
qed

section \<open>The counters under interleaving\<close>

lemma step_counts:
  assumes "step lib (m, pending, n) (m', pending', n')"
    and "RequestCount m = of_nat q" and "ErrorCount m = of_nat e"
    and "e \<le> q + length pending" and "q \<le> n"
  shows "\<exists>q' e'. RequestCount m' = of_nat q' \<and> ErrorCount m' = of_nat e'
           \<and> e' \<le> q' + length pending' \<and> q' \<le> n'"
  using assms(1)
proof cases
  case (unreadable r err)
  with assms(2-) show ?thesis by (intro exI [of _ q] exI [of _ e]) simp
next
  case (handled r body)
  have rc: "RequestCount m' = of_nat q"
    using handled assms(2) formatHandler_frame [of lib "r\<lparr>Body := Inr body\<rparr>" m] by simp
  from formatHandler_metrics [of lib "r\<lparr>Body := Inr body\<rparr>" m]
  have "ErrorCount m' = of_nat e \<or> ErrorCount m' = of_nat (Suc e)"
    using handled assms(3) by (auto simp: recordError_def)
  then show ?thesis
  proof
    assume "ErrorCount m' = of_nat e"
    with rc handled assms(4,5) show ?thesis by (intro exI [of _ q] exI [of _ e]) simp
  next
    assume "ErrorCount m' = of_nat (Suc e)"
    with rc handled assms(4,5) show ?thesis by (intro exI [of _ q] exI [of _ "Suc e"]) simp
  qed
next
  case (updated xs payloadSize ys duration)
  have "RequestCount m' = of_nat (Suc q)" and "ErrorCount m' = of_nat e"
    using updated assms(2,3) by (simp_all add: recordRequest_def)
  with updated assms(4,5) show ?thesis
    by (intro exI [of _ "Suc q"] exI [of _ e]) simp
qed

lemma reachable_counts:
  assumes "reachable lib (m, pending, n)"
  shows "\<exists>q e. RequestCount m = of_nat q \<and> ErrorCount m = of_nat e
           \<and> e \<le> q + length pending \<and> q \<le> n"
proof -
  have "(step lib)\<^sup>*\<^sup>* (formatMetrics, [], 0) s \<Longrightarrow>
        \<exists>q e. RequestCount (fst s) = of_nat q \<and> ErrorCount (fst s) = of_nat e
           \<and> e \<le> q + length (fst (snd s)) \<and> q \<le> snd (snd s)" for s
  proof (induction rule: rtranclp_induct)
    case base
    show ?case by (intro exI [of _ 0]) (simp add: formatMetrics_def)
  next
    case (step s t)
    then obtain q e where "RequestCount (fst s) = of_nat q" "ErrorCount (fst s) = of_nat e"
      "e \<le> q + length (fst (snd s))" "q \<le> snd (snd s)" by blast
    with step_counts [of lib "fst s" "fst (snd s)" "snd (snd s)"
        "fst t" "fst (snd t)" "snd (snd t)" q e] step.hyps(2)
    show ?case by simp
  qed
  from this [of "(m, pending, n)"] assms show ?thesis by (simp add: reachable_def)
qed

lemma reachable_after_error:
  "reachable sample_lib
     (\<lparr>RequestCount = 0, ErrorCount = 1, TotalDuration = 0, MaxPayloadSize = 0\<rparr>, [0], 0)"
proof -
  let ?r = "\<lparr>query_type = None, Body = Inr []\<rparr>"
  have "step sample_lib (formatMetrics, [], 0)
          (snd (formatHandler sample_lib (?r\<lparr>Body := Inr []\<rparr>) formatMetrics),
           of_nat (length ([] :: bytes)) # [], 0)"
    by (rule step.handled) simp
  moreover have "snd (formatHandler sample_lib (?r\<lparr>Body := Inr []\<rparr>) formatMetrics) =
      \<lparr>RequestCount = 0, ErrorCount = 1, TotalDuration = 0, MaxPayloadSize = 0\<rparr>"
    by (simp add: formatHandler_def Query_Get_def ToLower_def recordError_def formatMetrics_def)
  ultimately show ?thesis by (simp add: reachable_def)
qed

lemma reachable_after_update:
  "reachable sample_lib
     (\<lparr>RequestCount = 1, ErrorCount = 1, TotalDuration = 7, MaxPayloadSize = 0\<rparr>, [], 1)"
proof -
  let ?m = "\<lparr>RequestCount = 0, ErrorCount = 1, TotalDuration = 0, MaxPayloadSize = 0\<rparr>"
  have "step sample_lib (?m, [] @ 0 # [], 0) (recordRequest 7 0 ?m, [] @ [], Suc 0)"
    by (rule step.updated)
  then have "step sample_lib (?m, [0], 0)
     (\<lparr>RequestCount = 1, ErrorCount = 1, TotalDuration = 7, MaxPayloadSize = 0\<rparr>, [], 1)"
    by (simp add: recordRequest_def)
  with reachable_after_error show ?thesis unfolding reachable_def by (rule rtranclp.rtrancl_into_rtrancl)
qed


section \<open>The average of the metrics endpoint\<close>

lemma averageDuration_Some:
  "averageDuration m =
     Some (if 0 <s RequestCount m
           then word_of_int (sint (TotalDuration m) sdiv sint (RequestCount m)) else 0)"
  by (auto simp: averageDuration_def div_int64_def)

lemma Milliseconds_zero: "Milliseconds 0 = 0"
  by (simp add: Milliseconds_def)

lemma sdiv_nonneg:
  fixes a b :: int
  assumes "0 \<le> a" and "0 < b"
  shows "a sdiv b = a div b"
  using assms by (simp add: signed_divide_int_def sgn_if)

lemma average_nonneg:
  assumes "0 <s RequestCount m" and "0 \<le>s TotalDuration m"
  shows "sint (word_of_int (sint (TotalDuration m) sdiv sint (RequestCount m)) :: int64)
           = sint (TotalDuration m) div sint (RequestCount m)"
proof -
  let ?t = "sint (TotalDuration m)" and ?n = "sint (RequestCount m)"
  have n: "0 < ?n" using assms(1) by (simp add: word_sless_alt)
  have t: "0 \<le> ?t" using assms(2) by (simp add: word_sle_eq)
  have "?t < 2 ^ 63" using sint_lt [of "TotalDuration m"] by simp
  moreover have "?t div ?n \<le> ?t div 1" using n t by (intro zdiv_mono2) simp_all
  moreover have "0 \<le> ?t div ?n" using n t by (simp add: pos_imp_zdiv_nonneg_iff)
  ultimately have "signed_take_bit 63 (?t div ?n) = ?t div ?n"
    by (simp add: signed_take_bit_int_eq_self_iff)
  then show ?thesis using n t by (simp add: sdiv_nonneg sint_sbintrunc')
qed

section \<open>Auxiliary facts about sequences of calls\<close>

lemma Max_int_image:
  assumes "finite A" and "A \<noteq> {}"
  shows "Max (int ` A) = int (Max A)"
  using assms by (simp add: mono_Max_commute [symmetric] monoI)

lemma length_body_sizes: "length (body_sizes cs) \<le> length cs"
  by (induction cs) (simp_all split: sum.splits)

section \<open>The claims\<close>

text \<open>
  Claim C3, as amended. The claim says that the error count never exceeds the request
  count in any reachable state. The handler counts its error before the middleware
  counts the request, so between the two the error count can be ahead. What holds: in
  every state reached by any interleaving of fewer than \<open>2\<^sup>6\<^sup>3\<close> requests, the error
  count is at most the request count plus the number of requests whose handler has
  returned and whose middleware update is pending; so it is at most the request count
  whenever no such request is pending, and a snapshot taken then never reports an
  error count above the request count.
\<close>

theorem error_count_bounded_by_requests:
  assumes "reachable lib (m, pending, n)" and "n + length pending < 2 ^ 63"
  shows "sint (ErrorCount m) \<le> sint (RequestCount m) + int (length pending)
       \<and> (pending = [] \<longrightarrow> ErrorCount m \<le>s RequestCount m)"
proof -
  from reachable_counts [OF assms(1)] obtain q e where
    qe: "RequestCount m = of_nat q" "ErrorCount m = of_nat e"
      "e \<le> q + length pending" "q \<le> n" by blast
  with assms(2) have "q < 2 ^ 63" and "e < 2 ^ 63" by simp_all
  then have "sint (RequestCount m) = int q" and "sint (ErrorCount m) = int e"
    using qe by (simp_all add: sint_of_nat_int64)
  with qe(3) show ?thesis by (auto simp: word_sle_eq)
qed


theorem error_count_bounded_by_requests_witness:
  "sint (ErrorCount \<lparr>RequestCount = 1, ErrorCount = 1, TotalDuration = 7, MaxPayloadSize = 0\<rparr>)
     \<le> sint (RequestCount \<lparr>RequestCount = 1, ErrorCount = 1, TotalDuration = 7, MaxPayloadSize = 0\<rparr>) + int (length ([] :: int64 list))
   \<and> ErrorCount \<lparr>RequestCount = 1, ErrorCount = 1, TotalDuration = 7, MaxPayloadSize = 0\<rparr>
     \<le>s RequestCount \<lparr>RequestCount = 1, ErrorCount = 1, TotalDuration = 7, MaxPayloadSize = 0\<rparr>"
proof -
  have small: "1 + length ([] :: int64 list) < 2 ^ 63" by simp
  from error_count_bounded_by_requests [OF reachable_after_update small] show ?thesis by simp
qed

text \<open>
  The counterexample to claim C3 as stated: one request without a \<^verbatim>\<open>type\<close>
  parameter, after its handler has run line 132 and before its middleware has run
  line 71. The error count is 1, the request count is 0, and \<^verbatim>\<open>GET /metrics\<close>
  served at that moment reports exactly that.
\<close>

theorem error_count_exceeds_request_count:
  "reachable sample_lib
     (\<lparr>RequestCount = 0, ErrorCount = 1, TotalDuration = 0, MaxPayloadSize = 0\<rparr>, [0], 0)
   \<and> \<not> ErrorCount \<lparr>RequestCount = 0, ErrorCount = 1, TotalDuration = 0, MaxPayloadSize = 0\<rparr>
        \<le>s RequestCount \<lparr>RequestCount = 0, ErrorCount = 1, TotalDuration = 0, MaxPayloadSize = 0\<rparr>
   \<and> MetricsHandler \<lparr>RequestCount = 0, ErrorCount = 1, TotalDuration = 0, MaxPayloadSize = 0\<rparr>
       = Some (200, ''application/json'',
           \<lparr>request_count = 0, error_count = 1, total_duration_ms = 0,
            average_duration_ms = 0, max_payload_size_bytes = 0\<rparr>)"
  using reachable_after_error
  by (simp add: MetricsHandler_def averageDuration_def Milliseconds_def StatusOK_def
      word_sle_eq)


text \<open>
  Claim C6. \<^verbatim>\<open>MetricsHandler\<close> never divides by zero (it always returns a snapshot).
  The average duration is zero when the request count is zero; when the count is
  positive it is the total duration divided by the count, with Go's truncating
  division, which for a non-negative total is the integer quotient. The snapshot
  reports the average in milliseconds. Before any call the snapshot is all zeros. (A
  request count is positive after at least one and fewer than \<open>2\<^sup>6\<^sup>3\<close> counted requests.)
\<close>

theorem average_duration_guarded:
  "\<exists>avg. averageDuration m = Some avg
     \<and> (RequestCount m = 0 \<longrightarrow> avg = 0 \<and> Milliseconds avg = 0)
     \<and> (0 <s RequestCount m \<longrightarrow>
          avg = word_of_int (sint (TotalDuration m) sdiv sint (RequestCount m)))
     \<and> (0 <s RequestCount m \<and> 0 \<le>s TotalDuration m \<longrightarrow>
          sint avg = sint (TotalDuration m) div sint (RequestCount m))
     \<and> MetricsHandler m =
         Some (StatusOK, ''application/json'',
           \<lparr>request_count = RequestCount m, error_count = ErrorCount m,
            total_duration_ms = Milliseconds (TotalDuration m),
            average_duration_ms = Milliseconds avg,
            max_payload_size_bytes = MaxPayloadSize m\<rparr>)
     \<and> MetricsHandler formatMetrics =
         Some (StatusOK, ''application/json'',
           \<lparr>request_count = 0, error_count = 0, total_duration_ms = 0,
            average_duration_ms = 0, max_payload_size_bytes = 0\<rparr>)"
proof -
  let ?avg = "if 0 <s RequestCount m
    then word_of_int (sint (TotalDuration m) sdiv sint (RequestCount m)) else (0 :: int64)"
  have a: "averageDuration m = Some ?avg" by (rule averageDuration_Some)
  have z: "RequestCount m = 0 \<longrightarrow> ?avg = 0 \<and> Milliseconds ?avg = 0"
    by (simp add: Milliseconds_zero)
  have p: "0 <s RequestCount m \<longrightarrow>
      ?avg = word_of_int (sint (TotalDuration m) sdiv sint (RequestCount m))" by simp
  have q: "0 <s RequestCount m \<and> 0 \<le>s TotalDuration m \<longrightarrow>
      sint ?avg = sint (TotalDuration m) div sint (RequestCount m)"
    using average_nonneg [of m] by simp
  have h: "MetricsHandler m =
         Some (StatusOK, ''application/json'',
           \<lparr>request_count = RequestCount m, error_count = ErrorCount m,
            total_duration_ms = Milliseconds (TotalDuration m),
            average_duration_ms = Milliseconds ?avg,
            max_payload_size_bytes = MaxPayloadSize m\<rparr>)"
    unfolding MetricsHandler_def a by simp
  have i: "MetricsHandler formatMetrics =
         Some (StatusOK, ''application/json'',
           \<lparr>request_count = 0, error_count = 0, total_duration_ms = 0,
            average_duration_ms = 0, max_payload_size_bytes = 0\<rparr>)"
    by (simp add: MetricsHandler_def averageDuration_def formatMetrics_def Milliseconds_zero)
  from a z p q h i show ?thesis by blast
qed


theorem average_duration_guarded_witness:
  "MetricsHandler \<lparr>RequestCount = 2, ErrorCount = 1, TotalDuration = 5000000, MaxPayloadSize = 4\<rparr>
     = Some (200, ''application/json'',
         \<lparr>request_count = 2, error_count = 1, total_duration_ms = 5,
          average_duration_ms = 2, max_payload_size_bytes = 4\<rparr>)
   \<and> averageDuration formatMetrics = Some 0"
proof -
  let ?m = "\<lparr>RequestCount = 2, ErrorCount = 1, TotalDuration = 5000000, MaxPayloadSize = 4\<rparr>"
  from average_duration_guarded [of ?m] obtain avg where
    pos: "0 <s RequestCount ?m \<longrightarrow>
            avg = word_of_int (sint (TotalDuration ?m) sdiv sint (RequestCount ?m))"
    and h: "MetricsHandler ?m =
         Some (StatusOK, ''application/json'',
           \<lparr>request_count = RequestCount ?m, error_count = ErrorCount ?m,
            total_duration_ms = Milliseconds (TotalDuration ?m),
            average_duration_ms = Milliseconds avg,
            max_payload_size_bytes = MaxPayloadSize ?m\<rparr>)"
    by blast
  have "0 <s RequestCount ?m" by (simp add: word_sless_alt)
  with pos have "avg = 2500000" by (simp add: signed_divide_int_def)
  with h have first: "MetricsHandler ?m = Some (200, ''application/json'',
         \<lparr>request_count = 2, error_count = 1, total_duration_ms = 5,
          average_duration_ms = 2, max_payload_size_bytes = 4\<rparr>)"
    by (simp add: Milliseconds_def StatusOK_def signed_divide_int_def)
  from average_duration_guarded [of formatMetrics] obtain avg0 where
    "averageDuration formatMetrics = Some avg0"
    and "RequestCount formatMetrics = 0 \<longrightarrow> avg0 = 0 \<and> Milliseconds avg0 = 0"
    by blast
  then have "averageDuration formatMetrics = Some 0" by (simp add: formatMetrics_def)
  with first show ?thesis by simp
qed

text \<open>
  Claim C7. The largest payload never decreases across the middleware's update, nor
  across a whole call of the route, in the signed order of \<^verbatim>\<open>int64\<close>. After any
  sequence of calls served from the initial metrics it is the largest size among the
  bodies that were read, and 0 if none was. (A call whose body cannot be read has no
  body size: \<^verbatim>\<open>ioutil.ReadAll\<close> failed. Go's \<^verbatim>\<open>len\<close> is below \<open>2\<^sup>6\<^sup>3\<close>, which
  is the hypothesis on the sizes.)
\<close>

theorem max_payload_size_largest_body:
  "MaxPayloadSize m \<le>s MaxPayloadSize (recordRequest d p m)
   \<and> MaxPayloadSize m \<le>s MaxPayloadSize (snd (format_route lib d r m))
   \<and> ((\<forall>n \<in> set (body_sizes cs). n < 2 ^ 63) \<longrightarrow>
        sint (MaxPayloadSize (snd (serve_all lib cs formatMetrics)))
          = int (Max (set (0 # body_sizes cs))))"
proof -
  have a: "MaxPayloadSize m \<le>s MaxPayloadSize (recordRequest d p m)"
    by (simp add: word_sle_eq recordRequest_max)
  have b: "MaxPayloadSize m \<le>s MaxPayloadSize (snd (format_route lib d r m))"
    by (cases "Body r") (simp_all add: word_sle_eq MaxPayloadSize_format_route)
  have c: "sint (MaxPayloadSize (snd (serve_all lib cs formatMetrics)))
          = int (Max (set (0 # body_sizes cs)))"
    if small: "\<forall>n \<in> set (body_sizes cs). n < 2 ^ 63"
  proof -
    have "sint (MaxPayloadSize (snd (serve_all lib cs formatMetrics)))
            = Max (insert (sint (MaxPayloadSize formatMetrics)) (int ` set (body_sizes cs)))"
      by (rule MaxPayloadSize_serve_all [OF small])
    also have "\<dots> = Max (int ` set (0 # body_sizes cs))"
      by (simp add: formatMetrics_def)
    also have "\<dots> = int (Max (set (0 # body_sizes cs)))"
      by (rule Max_int_image) simp_all
    finally show ?thesis .
  qed
  from a b c show ?thesis by blast
qed

theorem max_payload_size_largest_body_witness:
  "body_sizes
     [(5, \<lparr>query_type = Some ''json'', Body = Inr ''{}''\<rparr>),
      (3, \<lparr>query_type = Some ''json'', Body = Inl ''unexpected EOF''\<rparr>),
      (9, \<lparr>query_type = Some ''XML'', Body = Inr ''<a/>''\<rparr>)] = [2, 4]
   \<and> sint (MaxPayloadSize (snd (serve_all sample_lib
     [(5, \<lparr>query_type = Some ''json'', Body = Inr ''{}''\<rparr>),
      (3, \<lparr>query_type = Some ''json'', Body = Inl ''unexpected EOF''\<rparr>),
      (9, \<lparr>query_type = Some ''XML'', Body = Inr ''<a/>''\<rparr>)] formatMetrics))) = 4"
proof -
  let ?cs = "[(5 :: Duration, \<lparr>query_type = Some ''json'', Body = Inr ''{}''\<rparr>),
      (3, \<lparr>query_type = Some ''json'', Body = Inl ''unexpected EOF''\<rparr>),
      (9, \<lparr>query_type = Some ''XML'', Body = Inr ''<a/>''\<rparr>)]"
  have sizes: "body_sizes ?cs = [2, 4]" by simp
  then have small: "\<forall>n \<in> set (body_sizes ?cs). n < 2 ^ 63" by simp
  from max_payload_size_largest_body [where lib = sample_lib and cs = ?cs] small
  have "sint (MaxPayloadSize (snd (serve_all sample_lib ?cs formatMetrics)))
          = int (Max (set (0 # body_sizes ?cs)))" by blast
  with sizes show ?thesis by simp
qed

text \<open>
  Claim C8. Whenever \<^verbatim>\<open>formatXML\<close> succeeds, its output is what
  \<^verbatim>\<open>xml.MarshalIndent\<close> returned for the parsed value with the empty prefix and an
  indent of two spaces, followed by one newline byte; so the output is not empty and
  ends in a newline.
\<close>

theorem formatXML_output_ends_in_newline:
  assumes "formatXML lib data = Inr out"
  shows "\<exists>parsedXML formattedXML.
           xml_Unmarshal lib data = Inr parsedXML
         \<and> xml_MarshalIndent lib parsedXML [] ''  '' = Inr formattedXML
         \<and> out = formattedXML @ [CHR 0x0A]
         \<and> out \<noteq> [] \<and> last out = CHR 0x0A"
  using assms by (auto simp: formatXML_def split: sum.splits)

theorem formatXML_output_ends_in_newline_witness:
  "formatXML sample_lib ''<a/>'' = Inr (''<a/>'' @ [CHR 0x0A])
   \<and> last (''<a/>'' @ [CHR 0x0A]) = CHR 0x0A"
proof -
  have run: "formatXML sample_lib ''<a/>'' = Inr (''<a/>'' @ [CHR 0x0A])"
    by (simp add: formatXML_def sample_lib_def decode_nonempty_def)
  from formatXML_output_ends_in_newline [OF run] have "last (''<a/>'' @ [CHR 0x0A]) = CHR 0x0A" by blast
  with run show ?thesis by blast
qed

text \<open>
  Claim C10. The listening port is read from the environment variable \<^verbatim>\<open>PORT\<close>
  alone: when it is unset or empty the server listens on \<^verbatim>\<open>:8030\<close>, when it is set
  to a non-empty value the server listens on that port, and no other variable of the
  environment changes the address.
\<close>

theorem port_from_environment:
  "((env ''PORT'' = None \<or> env ''PORT'' = Some []) \<longrightarrow>
       main_port env = ''8030'' \<and> main_addr env = '':8030'')
   \<and> (\<forall>p. env ''PORT'' = Some p \<and> p \<noteq> [] \<longrightarrow> main_port env = p \<and> main_addr env = '':'' @ p)
   \<and> (\<forall>env'. env' ''PORT'' = env ''PORT'' \<longrightarrow> main_addr env' = main_addr env)"
  by (auto simp: main_addr_def main_port_def Getenv_def split: option.splits)

theorem port_from_environment_witness:
  "main_addr Map.empty = '':8030''
   \<and> main_addr [''PORT'' \<mapsto> [], ''HOME'' \<mapsto> ''/root''] = '':8030''
   \<and> main_addr [''PORT'' \<mapsto> ''9000''] = '':9000''"
proof -
  have "main_addr Map.empty = '':8030''"
    using port_from_environment [of Map.empty] by simp
  moreover have "main_addr [''PORT'' \<mapsto> [], ''HOME'' \<mapsto> ''/root''] = '':8030''"
    using port_from_environment [of "[''PORT'' \<mapsto> [], ''HOME'' \<mapsto> ''/root'']"] by simp
  moreover have "main_addr [''PORT'' \<mapsto> ''9000''] = '':9000''"
    using port_from_environment [of "[''PORT'' \<mapsto> ''9000'']"] by simp
  ultimately show ?thesis by blast
qed

section \<open>Calls whose body cannot be read\<close>

text \<open>
  When \<^verbatim>\<open>ioutil.ReadAll\<close> fails in the middleware, lines 55-58 answer 400 and
  return before the handler (line 64) and before the update of the metrics (lines
  69-75). Such a call leaves the metrics as they were: it is counted neither as a
  request nor as an error. The handler's own branch for the same failure (lines
  140-147) does count the error, but behind the middleware it reads a buffer and its
  read never fails. The next three theorems run the service on such calls.
\<close>

text \<open>
  Claim C2, at a failing input. A single call whose body cannot be read is answered
  with 400 and the request count stays 0, whatever the library. With the library
  instance above: of two calls, the first is served with 200 and the body of the second
  cannot be read; both calls are completed, one successful and one failed, and the
  request count is 1, not 2.
\<close>

theorem request_count_misses_unread_body:
  "serve_all lib [(d, \<lparr>query_type = Some ''json'', Body = Inl ''unexpected EOF''\<rparr>)]
       formatMetrics
     = ([http_Error ''Failed to read request body'' StatusBadRequest], formatMetrics)
   \<and> RequestCount formatMetrics = 0
   \<and> map status (fst (serve_all sample_lib
     [(5, \<lparr>query_type = Some ''json'', Body = Inr ''{}''\<rparr>),
      (3, \<lparr>query_type = Some ''json'', Body = Inl ''unexpected EOF''\<rparr>)] formatMetrics))
     = [200, 400]
   \<and> RequestCount (snd (serve_all sample_lib
     [(5, \<lparr>query_type = Some ''json'', Body = Inr ''{}''\<rparr>),
      (3, \<lparr>query_type = Some ''json'', Body = Inl ''unexpected EOF''\<rparr>)] formatMetrics))
     = 1"
  by (simp add: format_route_def FormatMetricsMiddleware_def formatHandler_def Query_Get_def
      ToLower_def lower_byte_def respond_def formatJSON_def sample_lib_def decode_nonempty_def
      recordRequest_def formatMetrics_def http_Error_def StatusOK_def StatusBadRequest_def)

text \<open>
  Claim C4, at a failing input. A call with \<^verbatim>\<open>type=json\<close> whose body cannot be
  read is answered 400 with the metrics unchanged: the error count stays 0. The
  handler alone, on the same request, counts the error.
\<close>

theorem unread_body_error_not_counted:
  "format_route lib d \<lparr>query_type = Some ''json'', Body = Inl ''unexpected EOF''\<rparr> formatMetrics
     = (http_Error ''Failed to read request body'' StatusBadRequest, formatMetrics)
   \<and> ErrorCount (snd (format_route lib d
         \<lparr>query_type = Some ''json'', Body = Inl ''unexpected EOF''\<rparr> formatMetrics)) = 0
   \<and> ErrorCount (snd (formatHandler lib
         \<lparr>query_type = Some ''json'', Body = Inl ''unexpected EOF''\<rparr> formatMetrics)) = 1"
  by (simp add: format_route_def FormatMetricsMiddleware_def formatHandler_def Query_Get_def
      ToLower_def lower_byte_def recordError_def formatMetrics_def)

text \<open>
  Claim C5, at a failing input. A call without a \<^verbatim>\<open>type\<close> parameter, or with
  \<^verbatim>\<open>type=yaml\<close>, whose body cannot be read is answered 400 by the middleware and the
  error count is not incremented.
\<close>

theorem missing_type_unread_body_not_counted:
  "format_route lib d \<lparr>query_type = None, Body = Inl ''unexpected EOF''\<rparr> formatMetrics
     = (http_Error ''Failed to read request body'' StatusBadRequest, formatMetrics)
   \<and> format_route lib d \<lparr>query_type = Some ''yaml'', Body = Inl ''unexpected EOF''\<rparr> formatMetrics
     = (http_Error ''Failed to read request body'' StatusBadRequest, formatMetrics)
   \<and> ErrorCount formatMetrics = 0"
  by (simp add: format_route_def FormatMetricsMiddleware_def formatMetrics_def)

section \<open>Further properties of the service\<close>

text \<open>
  The handler on a \<^verbatim>\<open>type\<close> parameter that is absent, empty or, lowercased, none
  of \<^verbatim>\<open>json\<close>, \<^verbatim>\<open>xml\<close>, \<^verbatim>\<open>html\<close>: the response is a 400, the error count goes up
  by one, and the outcome is the same whatever the library does, so no formatter
  decides it. When the parameter is absent the message names the missing parameter.
\<close>

theorem formatHandler_rejects_unknown_type:
  assumes "ToLower (Query_Get r) \<notin> {''json'', ''xml'', ''html''}"
  shows "status (fst (formatHandler lib r m)) = StatusBadRequest
       \<and> snd (formatHandler lib r m) = recordError m
       \<and> ErrorCount (snd (formatHandler lib r m)) = ErrorCount m + 1
       \<and> formatHandler lib r m = formatHandler lib' r m
       \<and> (query_type r = None \<longrightarrow>
            fst (formatHandler lib r m) =
              http_Error ''Missing 'type' parameter. Specify 'json', 'xml', or 'html'.''
                StatusBadRequest)"
  using assms
  by (simp add: formatHandler_def Let_def http_Error_def recordError_def Query_Get_def
      ToLower_def split: sum.splits)

theorem formatHandler_rejects_unknown_type_witness:
  "status (fst (formatHandler sample_lib \<lparr>query_type = Some ''YAML'', Body = Inr ''a: 1''\<rparr>
      formatMetrics)) = 400
   \<and> ErrorCount (snd (formatHandler sample_lib \<lparr>query_type = Some ''YAML'', Body = Inr ''a: 1''\<rparr>
      formatMetrics)) = 1"
proof -
  have "ToLower (Query_Get \<lparr>query_type = Some ''YAML'', Body = Inr ''a: 1''\<rparr>)
          \<notin> {''json'', ''xml'', ''html''}"
    by code_simp
  from formatHandler_rejects_unknown_type [OF this, where lib = sample_lib and lib' = sample_lib and m = formatMetrics]
  show ?thesis by (simp add: StatusBadRequest_def formatMetrics_def recordError_def)
qed

text \<open>
  A call whose body is read is counted once as a request, its duration is added, and
  it is counted as an error exactly when its status is not 200.
\<close>

theorem read_call_counted_once:
  assumes "Body r = Inr body"
  shows "RequestCount (snd (format_route lib d r m)) = RequestCount m + 1
       \<and> TotalDuration (snd (format_route lib d r m)) = TotalDuration m + d
       \<and> ErrorCount (snd (format_route lib d r m)) =
           (if status (fst (format_route lib d r m)) = StatusOK
            then ErrorCount m else ErrorCount m + 1)"
proof -
  let ?h = "formatHandler lib (r\<lparr>Body := Inr body\<rparr>) m"
  have "snd ?h = (if status (fst ?h) = StatusOK then m else recordError m)"
    by (rule formatHandler_counts)
  then have "ErrorCount (snd ?h) =
      (if status (fst ?h) = StatusOK then ErrorCount m else ErrorCount m + 1)"
    by (simp add: recordError_def)
  moreover have "RequestCount (snd ?h) = RequestCount m"
    and "TotalDuration (snd ?h) = TotalDuration m"
    using formatHandler_frame [of lib "r\<lparr>Body := Inr body\<rparr>" m] by simp_all
  ultimately show ?thesis
    by (simp add: format_route_readable [OF assms] recordRequest_def)
qed

theorem read_call_counted_once_witness:
  "RequestCount (snd (format_route sample_lib 5
      \<lparr>query_type = Some ''json'', Body = Inr []\<rparr> formatMetrics)) = 1
   \<and> TotalDuration (snd (format_route sample_lib 5
      \<lparr>query_type = Some ''json'', Body = Inr []\<rparr> formatMetrics)) = 5
   \<and> ErrorCount (snd (format_route sample_lib 5
      \<lparr>query_type = Some ''json'', Body = Inr []\<rparr> formatMetrics)) = 1"
proof -
  let ?r = "\<lparr>query_type = Some ''json'', Body = Inr []\<rparr>"
  have st: "status (fst (format_route sample_lib 5 ?r formatMetrics)) = 500"
    by (simp add: format_route_def FormatMetricsMiddleware_def formatHandler_def Query_Get_def
      ToLower_def lower_byte_def respond_def formatJSON_def sample_lib_def decode_nonempty_def
      http_Error_def StatusInternalServerError_def)
  have "Body ?r = Inr []" by simp
  from read_call_counted_once [OF this, of sample_lib 5 formatMetrics] st
  show ?thesis by (simp add: formatMetrics_def StatusOK_def)
qed

text \<open>
  After a sequence of calls served from the initial metrics there is one response per
  call, and the request count is the number of calls whose body was read (modulo
  \<open>2\<^sup>6\<^sup>4\<close>).
\<close>

theorem request_count_after_calls:
  "RequestCount (snd (serve_all lib cs formatMetrics)) = of_nat (length (body_sizes cs))
   \<and> length (fst (serve_all lib cs formatMetrics)) = length cs"
  using RequestCount_serve_all [of lib cs formatMetrics] length_serve_all [of lib cs formatMetrics]
  by (simp add: formatMetrics_def)

text \<open>
  For fewer than \<open>2\<^sup>6\<^sup>3\<close> calls the request count, read as a signed \<^verbatim>\<open>int64\<close>, is
  that number and is never negative.
\<close>

theorem request_count_signed:
  assumes "length cs < 2 ^ 63"
  shows "sint (RequestCount (snd (serve_all lib cs formatMetrics))) = int (length (body_sizes cs))
       \<and> \<not> RequestCount (snd (serve_all lib cs formatMetrics)) <s 0"
proof -
  have "length (body_sizes cs) < 2 ^ 63"
    using assms length_body_sizes [of cs] by simp
  then have "sint (of_nat (length (body_sizes cs)) :: int64) = int (length (body_sizes cs))"
    by (rule sint_of_nat_int64)
  moreover have "RequestCount (snd (serve_all lib cs formatMetrics))
      = of_nat (length (body_sizes cs))"
    using RequestCount_serve_all [of lib cs formatMetrics] by (simp add: formatMetrics_def)
  ultimately show ?thesis by (simp add: word_sless_alt)
qed

theorem request_count_signed_witness:
  "sint (RequestCount (snd (serve_all sample_lib
     [(5, \<lparr>query_type = Some ''json'', Body = Inr ''{}''\<rparr>),
      (3, \<lparr>query_type = Some ''json'', Body = Inl ''unexpected EOF''\<rparr>)] formatMetrics))) = 1"
proof -
  let ?cs = "[(5 :: Duration, \<lparr>query_type = Some ''json'', Body = Inr ''{}''\<rparr>),
      (3, \<lparr>query_type = Some ''json'', Body = Inl ''unexpected EOF''\<rparr>)]"
  have "length ?cs < 2 ^ 63" by simp
  from request_count_signed [OF this, of sample_lib] show ?thesis by simp
qed

text \<open>
  \<^verbatim>\<open>formatJSON\<close> succeeds exactly when \<^verbatim>\<open>json.Unmarshal\<close> and
  \<^verbatim>\<open>json.MarshalIndent\<close> both do, and returns the bytes of the latter unchanged.
\<close>

theorem formatJSON_marshals_parsed_value:
  "(formatJSON lib data = Inr out) =
     (\<exists>parsedJSON. json_Unmarshal lib data = Inr parsedJSON
        \<and> json_MarshalIndent lib parsedJSON [] ''  '' = Inr out)"
  by (auto simp: formatJSON_def split: sum.splits)

text \<open>
  \<^verbatim>\<open>formatXML\<close> returns an error exactly when \<^verbatim>\<open>xml.Unmarshal\<close> does, or when
  \<^verbatim>\<open>xml.MarshalIndent\<close> does on the parsed value; in every other case it returns
  output.
\<close>

theorem formatXML_fails_with_library:
  "(\<exists>err. formatXML lib data = Inl err) =
     ((\<exists>err. xml_Unmarshal lib data = Inl err)
      \<or> (\<exists>parsedXML err. xml_Unmarshal lib data = Inr parsedXML
            \<and> xml_MarshalIndent lib parsedXML [] ''  '' = Inl err))"
proof (cases "xml_Unmarshal lib data")
  case (Inl err)
  then show ?thesis by (simp add: formatXML_def)
next
  case (Inr parsedXML)
  then show ?thesis
    by (cases "xml_MarshalIndent lib parsedXML [] ''  ''") (simp_all add: formatXML_def)
qed

end
